theory Spec2Isabelle
  imports Main
begin

section \<open>Values, exceptions and the program state\<close>

text \<open>
  The package \<^verbatim>\<open>callback_decorator\<close> consists of the class \<^verbatim>\<open>CallbackWrapper\<close>
  (the ownership token), the free function \<^verbatim>\<open>release_callback\<close>, the helper
  \<^verbatim>\<open>_bindargs_and_get_callobj\<close> and the decorator \<^verbatim>\<open>ensure_callback\<close>.

  Python exceptions are values of \<open>exn\<close>; a computation that may raise returns
  \<open>exn + 'a\<close> (\<open>Inl\<close> is the raised exception) together with the new state.
\<close>

datatype exn =
    RuntimeError string
  | ValueError string
  | TypeError string
  | KeyError string

text \<open>
  Plain Python objects, as far as the package looks at them: \<open>None\<close>, some data, and
  callables. A callable \<open>PyCallable n res\<close> has a name and, when called, records the call
  in the state and then returns \<open>v\<close> (\<open>res = Inr v\<close>) or raises \<open>e\<close> (\<open>res = Inl e\<close>).
  A value handed around in a call is a plain object or a reference to a
  \<^verbatim>\<open>CallbackWrapper\<close> instance.
\<close>

datatype obj =
    PyNone
  | PyInt int
  | PyStr string
  | PyCallable string "exn + obj"

datatype pyval = Obj obj | Wrapper nat

type_synonym kwargs = "(string \<times> pyval) list"

text \<open>
  \<^verbatim>\<open>class CallbackWrapper: _callobj: Union[Callable, None]\<close>.
  The field is written only by \<^verbatim>\<open>__init__\<close> (with the result of \<^verbatim>\<open>release_callback\<close>,
  which is never a wrapper), by \<^verbatim>\<open>__call__\<close> and by \<^verbatim>\<open>release\<close> (both with \<open>None\<close>),
  so its type is \<open>obj\<close>; \<open>PyNone\<close> is the empty marker the code tests with \<^verbatim>\<open>is None\<close>.
\<close>

record CallbackWrapper =
  callobj :: obj

text \<open>
  The state: the instances of \<^verbatim>\<open>CallbackWrapper\<close> by address, and the log of the calls
  that reached a callable (the callable, \<^verbatim>\<open>args\<close>, \<^verbatim>\<open>kwargs\<close>), oldest first.
\<close>

record state =
  heap :: "CallbackWrapper list"
  calls :: "(obj \<times> pyval list \<times> kwargs) list"

definition held :: "nat \<Rightarrow> state \<Rightarrow> bool" where
  "held self st = (callobj (heap st ! self) \<noteq> PyNone)"

text \<open>The assignment \<^verbatim>\<open>self._callobj = v\<close>.\<close>

definition set_callobj :: "nat \<Rightarrow> obj \<Rightarrow> state \<Rightarrow> state" where
  "set_callobj self v st = st\<lparr>heap := (heap st)[self := (heap st ! self)\<lparr>callobj := v\<rparr>]\<rparr>"

text \<open>Calling a plain object: \<^verbatim>\<open>callobj(*args, **kwargs)\<close>.\<close>

definition not_callable :: "string \<Rightarrow> exn" where
  "not_callable tp = TypeError ([CHR 0x27] @ tp @ [CHR 0x27] @ '' object is not callable'')"

fun call_obj :: "obj \<Rightarrow> pyval list \<Rightarrow> kwargs \<Rightarrow> state \<Rightarrow> (exn + obj) \<times> state" where
  "call_obj (PyCallable n res) args kw st =
     (res, st\<lparr>calls := calls st @ [(PyCallable n res, args, kw)]\<rparr>)"
| "call_obj PyNone args kw st = (Inl (not_callable ''NoneType''), st)"
| "call_obj (PyInt i) args kw st = (Inl (not_callable ''int''), st)"
| "call_obj (PyStr s) args kw st = (Inl (not_callable ''str''), st)"

text \<open>
  Keyword arguments against named parameters. The functions of the package that take
  \<^verbatim>\<open>**kwargs\<close> also have parameters of their own, which every call fills positionally:
  \<^verbatim>\<open>__call__(self, *args, **kwargs)\<close>,
  \<^verbatim>\<open>_bindargs_and_get_callobj(signature, callback_name, *args, **kwargs)\<close> and
  \<^verbatim>\<open>ensure_callback(callback_name, *callback_args, **callback_kwargs)\<close>. Python binds the
  positional arguments first; a keyword argument that bears the name of one of these
  parameters then makes the call itself raise \<open>TypeError\<close>, and the body of the function
  does not run. \<open>collision names kw\<close> is the first keyword of \<open>kw\<close> with such a name.
\<close>

definition multiple_values :: "string \<Rightarrow> string \<Rightarrow> exn" where
  "multiple_values fn name =
     TypeError (fn @ ''() got multiple values for argument '' @ [CHR 0x27] @ name @ [CHR 0x27])"

definition collision :: "string list \<Rightarrow> kwargs \<Rightarrow> string option" where
  "collision names kw = map_option fst (find (\<lambda>(k, v). k \<in> set names) kw)"

section \<open>The ownership token: class CallbackWrapper\<close>

definition already_released :: string where
  "already_released = ''Cannot release a call object which is already released!''"

text \<open>
  \<^verbatim>\<open>def __call__(self, *args, **kwargs):
    if self._callobj is not None:
        callobj = self._callobj
        self._callobj = None
        return callobj(*args, **kwargs)
    return None\<close>
  A call \<^verbatim>\<open>token(..., self=x)\<close> does not reach this body: it raises \<open>TypeError\<close> and
  leaves the token as it is.
\<close>

definition CallbackWrapper_call ::
  "nat \<Rightarrow> pyval list \<Rightarrow> kwargs \<Rightarrow> state \<Rightarrow> (exn + obj) \<times> state" where
  "CallbackWrapper_call self args kw st =
     (case collision [''self''] kw of
        Some name \<Rightarrow> (Inl (multiple_values ''CallbackWrapper.__call__'' name), st)
      | None \<Rightarrow>
          (if callobj (heap st ! self) \<noteq> PyNone then
             call_obj (callobj (heap st ! self)) args kw (set_callobj self PyNone st)
           else (Inr PyNone, st)))"

text \<open>
  \<^verbatim>\<open>def release(self):
    if self._callobj is None:
        raise RuntimeError("Cannot release a call object which is already released!")
    callobj = self._callobj
    self._callobj = None
    return callobj\<close>
\<close>

definition release :: "nat \<Rightarrow> state \<Rightarrow> (exn + obj) \<times> state" where
  "release self st =
     (if callobj (heap st ! self) = PyNone then (Inl (RuntimeError already_released), st)
      else (Inr (callobj (heap st ! self)), set_callobj self PyNone st))"

text \<open>
  \<^verbatim>\<open>def release_callback(callobj):
    return callobj.release() if isinstance(callobj, CallbackWrapper) else callobj\<close>
\<close>

definition release_callback :: "pyval \<Rightarrow> state \<Rightarrow> (exn + obj) \<times> state" where
  "release_callback v st = (case v of Wrapper r \<Rightarrow> release r st | Obj c \<Rightarrow> (Inr c, st))"

text \<open>
  \<^verbatim>\<open>def __init__(self, callobj):
    self._callobj = release_callback(callobj)\<close>
  The new instance gets the next free address; when \<^verbatim>\<open>release_callback\<close> raises, no
  instance comes into being.
\<close>

definition alloc :: "obj \<Rightarrow> state \<Rightarrow> state" where
  "alloc c st = st\<lparr>heap := heap st @ [\<lparr>callobj = c\<rparr>]\<rparr>"

definition CallbackWrapper_init :: "pyval \<Rightarrow> state \<Rightarrow> (exn + nat) \<times> state" where
  "CallbackWrapper_init v st =
     (case release_callback v st of
        (Inl e, st') \<Rightarrow> (Inl e, st')
      | (Inr c, st') \<Rightarrow> (Inr (length (heap st')), alloc c st'))"

subsection \<open>Sequences of operations on one token\<close>

text \<open>
  A client that holds a token can invoke it and release it, in any order and any number of
  times, going on after a failed operation. \<open>run_ops\<close> collects what each operation gave.
  An operation is \<open>effective\<close> when its call reaches the method: every release, and every
  invocation without a keyword argument named \<^verbatim>\<open>self\<close>. \<open>consuming\<close> counts the
  effective operations that found the token holding its callable, that is, the invocations
  that called it and the releases that returned it; \<open>idle\<close> is what an operation gives on
  an empty token.
\<close>

datatype token_op = Invoke "pyval list" kwargs | Release

fun apply_op :: "nat \<Rightarrow> token_op \<Rightarrow> state \<Rightarrow> (exn + obj) \<times> state" where
  "apply_op self (Invoke args kw) st = CallbackWrapper_call self args kw st"
| "apply_op self Release st = release self st"

fun run_ops :: "nat \<Rightarrow> token_op list \<Rightarrow> state \<Rightarrow> (exn + obj) list \<times> state" where
  "run_ops self [] st = ([], st)"
| "run_ops self (op # ops) st =
     (case apply_op self op st of (x, st') \<Rightarrow>
        (case run_ops self ops st' of (xs, st'') \<Rightarrow> (x # xs, st'')))"

fun effective :: "token_op \<Rightarrow> bool" where
  "effective (Invoke args kw) = (collision [''self''] kw = None)"
| "effective Release = True"


fun idle :: "token_op \<Rightarrow> exn + obj" where
  "idle (Invoke args kw) =
     (case collision [''self''] kw of
        Some name \<Rightarrow> Inl (multiple_values ''CallbackWrapper.__call__'' name)
      | None \<Rightarrow> Inr PyNone)"
| "idle Release = Inl (RuntimeError already_released)"

section \<open>Argument binding\<close>





section \<open>Target functions\<close>













section \<open>The decorator ensure_callback\<close>






















section \<open>What a body does, read off its text\<close>






section \<open>The scenarios of the test suite\<close>

text \<open>
  The tests decorate functions \<^verbatim>\<open>myfu(callback)\<close> and pass a bound method that records
  its arguments; \<open>failing_callback\<close> is a callback that raises. \<open>myfu_sig\<close> is a function
  \<^verbatim>\<open>myfu(callback, signature=None)\<close>; \<open>decorated_self\<close> is \<^verbatim>\<open>myfu\<close> decorated with the
  keyword argument \<^verbatim>\<open>self=1\<close> for the callback; \<open>myfu_async\<close> is
  \<^verbatim>\<open>async def myfu(callback)\<close>.
\<close>

definition callback_method :: obj where
  "callback_method = PyCallable ''callback_method'' (Inr PyNone)"

definition failing_callback :: obj where
  "failing_callback = PyCallable ''failing_callback'' (Inl (ValueError ''boom''))"









definition one_token :: "obj \<Rightarrow> state" where
  "one_token c = \<lparr>heap = [\<lparr>callobj = c\<rparr>], calls = []\<rparr>"


section \<open>Properties of the token\<close>


lemma heap_set_callobj:
  "heap (set_callobj r v st) = (heap st)[r := (heap st ! r)\<lparr>callobj := v\<rparr>]"
  by (simp add: set_callobj_def)

lemma calls_set_callobj: "calls (set_callobj r v st) = calls st"
  by (simp add: set_callobj_def)

lemma length_heap_set_callobj: "length (heap (set_callobj r v st)) = length (heap st)"
  by (simp add: set_callobj_def)

lemma not_held_cleared: "r < length (heap st) \<Longrightarrow> \<not> held r (set_callobj r PyNone st)"
  by (simp add: held_def set_callobj_def)



lemma call_collides:
  "collision [''self''] k = Some name \<Longrightarrow>
     CallbackWrapper_call r a k st = (Inl (multiple_values ''CallbackWrapper.__call__'' name), st)"
  by (simp add: CallbackWrapper_call_def)

lemma call_empty:
  "collision [''self''] k = None \<Longrightarrow> \<not> held r st \<Longrightarrow>
     CallbackWrapper_call r a k st = (Inr PyNone, st)"
  by (simp add: held_def CallbackWrapper_call_def)


lemma call_empty_state: "\<not> held r st \<Longrightarrow> snd (CallbackWrapper_call r a k st) = st"
  by (cases "collision [''self''] k") (simp_all add: call_collides call_empty)

lemma release_empty:
  "\<not> held r st \<Longrightarrow> release r st = (Inl (RuntimeError already_released), st)"
  by (simp add: held_def release_def)

lemma release_held:
  "held r st \<Longrightarrow> release r st = (Inr (callobj (heap st ! r)), set_callobj r PyNone st)"
  by (simp add: held_def release_def)






lemma apply_op_idle: "\<not> held r st \<Longrightarrow> apply_op r op st = (idle op, st)"
  by (cases op) (simp_all add: CallbackWrapper_call_def release_def held_def split: option.splits)

lemma apply_op_ineffective: "\<not> effective op \<Longrightarrow> apply_op r op st = (idle op, st)"
  by (cases op) (auto simp: CallbackWrapper_call_def split: option.splits)


lemma run_ops_idle: "\<not> held r st \<Longrightarrow> run_ops r ops st = (map idle ops, st)"
  by (induction ops) (simp_all add: apply_op_idle)



lemma calls_alloc: "calls (alloc c st) = calls st"
  by (simp add: alloc_def)


lemma callobj_alloc_new: "callobj (heap (alloc c st) ! length (heap st)) = c"
  by (simp add: alloc_def)

lemma held_alloc_new: "held (length (heap st)) (alloc c st) = (c \<noteq> PyNone)"
  by (simp add: held_def alloc_def)

lemma held_alloc_old: "t < length (heap st) \<Longrightarrow> held t (alloc c st) = held t st"
  by (simp add: held_def alloc_def nth_append)


lemma release_callback_length:
  "length (heap (snd (release_callback v st))) = length (heap st)"
  by (cases v) (simp_all add: release_callback_def release_def length_heap_set_callobj)

lemma init_ok:
  assumes "release_callback v st = (Inr c, s1)"
  shows "CallbackWrapper_init v st = (Inr (length (heap st)), alloc c s1)"
proof -
  have "length (heap s1) = length (heap st)"
    using release_callback_length [of v st] assms by simp
  with assms show ?thesis by (simp add: CallbackWrapper_init_def)
qed

lemma init_from_held:
  "held t st \<Longrightarrow>
     CallbackWrapper_init (Wrapper t) st
       = (Inr (length (heap st)), alloc (callobj (heap st ! t)) (set_callobj t PyNone st))"
  by (rule init_ok) (simp add: release_callback_def release_held)

lemma init_from_empty:
  "\<not> held t st \<Longrightarrow>
     CallbackWrapper_init (Wrapper t) st = (Inl (RuntimeError already_released), st)"
  by (simp add: CallbackWrapper_init_def release_callback_def release_empty)







text \<open>
  C8 (construction from a token). Constructing a token from a token \<open>t\<close> that holds a
  callable goes through the release of \<open>t\<close>: \<open>t\<close> is emptied, the new token, at a fresh
  address, holds the callable, nothing is called, and whatever is done to \<open>t\<close> afterwards
  it stays empty. Constructing from an empty \<open>t\<close> raises the error of the release and
  creates nothing.
\<close>

theorem construct_from_token:
  assumes "t < length (heap st)"
  shows "(held t st \<longrightarrow>
            release t st = (Inr (callobj (heap st ! t)), set_callobj t PyNone st)
          \<and> CallbackWrapper_init (Wrapper t) st
              = (Inr (length (heap st)), alloc (callobj (heap st ! t)) (set_callobj t PyNone st))
          \<and> \<not> held t (set_callobj t PyNone st)
          \<and> \<not> held t (snd (CallbackWrapper_init (Wrapper t) st))
          \<and> held (length (heap st)) (snd (CallbackWrapper_init (Wrapper t) st))
          \<and> callobj (heap (snd (CallbackWrapper_init (Wrapper t) st)) ! length (heap st))
              = callobj (heap st ! t)
          \<and> calls (snd (CallbackWrapper_init (Wrapper t) st)) = calls st
          \<and> \<not> held t (snd (run_ops t ops (snd (CallbackWrapper_init (Wrapper t) st)))))
       \<and> (\<not> held t st \<longrightarrow>
            CallbackWrapper_init (Wrapper t) st = (Inl (RuntimeError already_released), st))"
proof -
  let ?c = "callobj (heap st ! t)"
  let ?s1 = "set_callobj t PyNone st"
  have len: "length (heap ?s1) = length (heap st)"
    by (rule length_heap_set_callobj)
  have e1: "\<not> held t ?s1"
    by (rule not_held_cleared [OF assms])
  have e2: "\<not> held t (alloc ?c ?s1)"
    using e1 assms held_alloc_old [of t ?s1 ?c] len by simp
  have e3: "\<not> held t (snd (run_ops t ops (alloc ?c ?s1)))"
    using e2 by (simp add: run_ops_idle)
  have n1: "callobj (heap (alloc ?c ?s1) ! length (heap st)) = ?c"
    using callobj_alloc_new [of ?c ?s1] len by simp
  have n2: "held t st \<longrightarrow> held (length (heap st)) (alloc ?c ?s1)"
    using held_alloc_new [of ?s1 ?c] len by (simp add: held_def)
  have c1: "calls (alloc ?c ?s1) = calls st"
    by (simp add: calls_alloc calls_set_callobj)
  have pos: "held t st \<longrightarrow>
            release t st = (Inr ?c, ?s1)
          \<and> CallbackWrapper_init (Wrapper t) st = (Inr (length (heap st)), alloc ?c ?s1)
          \<and> \<not> held t ?s1
          \<and> \<not> held t (snd (CallbackWrapper_init (Wrapper t) st))
          \<and> held (length (heap st)) (snd (CallbackWrapper_init (Wrapper t) st))
          \<and> callobj (heap (snd (CallbackWrapper_init (Wrapper t) st)) ! length (heap st)) = ?c
          \<and> calls (snd (CallbackWrapper_init (Wrapper t) st)) = calls st
          \<and> \<not> held t (snd (run_ops t ops (snd (CallbackWrapper_init (Wrapper t) st))))"
    using e1 e2 e3 n1 n2 c1 by (simp add: init_from_held release_held)
  have neg: "\<not> held t st \<longrightarrow>
            CallbackWrapper_init (Wrapper t) st = (Inl (RuntimeError already_released), st)"
    by (simp add: init_from_empty)
  show ?thesis by (rule conjI [OF pos neg])
qed

theorem construct_from_token_witness:
  "CallbackWrapper_init (Wrapper 0) (one_token callback_method)
     = (Inr 1, \<lparr>heap = [\<lparr>callobj = PyNone\<rparr>, \<lparr>callobj = callback_method\<rparr>], calls = []\<rparr>)
   \<and> CallbackWrapper_init (Wrapper 0) (one_token PyNone)
     = (Inl (RuntimeError already_released), one_token PyNone)"
proof -
  have l1: "0 < length (heap (one_token callback_method))"
    by (simp add: one_token_def)
  have l2: "0 < length (heap (one_token PyNone))"
    by (simp add: one_token_def)
  have h1: "held 0 (one_token callback_method)"
    by (simp add: held_def one_token_def callback_method_def)
  have h2: "\<not> held 0 (one_token PyNone)"
    by (simp add: held_def one_token_def)
  have v: "alloc (callobj (heap (one_token callback_method) ! 0))
             (set_callobj 0 PyNone (one_token callback_method))
           = \<lparr>heap = [\<lparr>callobj = PyNone\<rparr>, \<lparr>callobj = callback_method\<rparr>], calls = []\<rparr>"
    by (simp add: alloc_def set_callobj_def one_token_def)
  have n: "length (heap (one_token callback_method)) = 1"
    by (simp add: one_token_def)
  from construct_from_token [OF l1] h1
  have a: "CallbackWrapper_init (Wrapper 0) (one_token callback_method)
     = (Inr 1, \<lparr>heap = [\<lparr>callobj = PyNone\<rparr>, \<lparr>callobj = callback_method\<rparr>], calls = []\<rparr>)"
    unfolding v n by blast
  from construct_from_token [OF l2] h2
  have b: "CallbackWrapper_init (Wrapper 0) (one_token PyNone)
     = (Inl (RuntimeError already_released), one_token PyNone)"
    by blast
  show ?thesis by (rule conjI [OF a b])
qed

text \<open>
  C10 (one error). Constructing a token from an empty token and releasing an empty token
  raise the same exception: the construction calls \<^verbatim>\<open>release_callback\<close>, which calls
  \<^verbatim>\<open>release\<close>, and the \<open>RuntimeError\<close> with the message of \<^verbatim>\<open>release\<close> is what comes out of
  all three, with the state as it was.
\<close>

theorem ownership_error_is_release_error:
  assumes "\<not> held t st"
  shows "release t st = (Inl (RuntimeError already_released), st)
       \<and> release_callback (Wrapper t) st = release t st
       \<and> CallbackWrapper_init (Wrapper t) st = (Inl (RuntimeError already_released), st)"
  using assms by (simp add: init_from_empty release_empty release_callback_def)

theorem ownership_error_is_release_error_witness:
  "release 0 (one_token PyNone)
     = (Inl (RuntimeError ''Cannot release a call object which is already released!''),
        one_token PyNone)
   \<and> CallbackWrapper_init (Wrapper 0) (one_token PyNone)
     = (Inl (RuntimeError ''Cannot release a call object which is already released!''),
        one_token PyNone)"
proof -
  have h: "\<not> held 0 (one_token PyNone)"
    by (simp add: held_def one_token_def)
  from ownership_error_is_release_error [OF h]
  show ?thesis by (simp add: already_released_def)
qed

section \<open>Properties of the decorator\<close>





section \<open>Properties of the plain wrapper\<close>






















lemma raw_failing_callback:
  "release_callback (Obj failing_callback) st
     = (Inr (PyCallable ''failing_callback'' (Inl (ValueError ''boom''))), st)"
  by (simp add: release_callback_def failing_callback_def)















section \<open>Properties of the generator wrapper\<close>











end
